theory Spec2Isabelle
  imports Main
begin

section \<open>The neutral conversation model\<close>

text \<open>
  The translators of \<^verbatim>\<open>OpenAIService\<close> read two fields of a stored message: its role
  and its content, a sequence of content blocks.  The type variable \<open>'j\<close> stands for the
  JavaScript values that a block carries opaquely (the \<^verbatim>\<open>input\<close> of a tool call, or
  a whole block of a kind the translator has no case for).
\<close>

datatype role = USER | ASSISTANT

datatype 'j block =
    Text string                       \<comment> \<open>text\<close>
  | ToolUse string string 'j          \<comment> \<open>id, name, input\<close>
  | ToolResult string "'j block list" \<comment> \<open>tool_use_id, content\<close>
  | Thinking string string            \<comment> \<open>thinking, signature\<close>
  | Image string string               \<comment> \<open>source.media_type, source.data\<close>
  | UserAction "'j block list"        \<comment> \<open>content\<close>
  | OtherBlock 'j                     \<comment> \<open>a block of any other type: the object itself\<close>

record 'j message =
  role :: role
  content :: "'j block list"

section \<open>The wire items\<close>

text \<open>
  One type serves both directions: the items \<^verbatim>\<open>formatMessagesForOpenAI\<close> builds and the
  items \<^verbatim>\<open>formatOpenAIResponse\<close> reads are objects discriminated by their \<^verbatim>\<open>type\<close>
  field.  \<open>OtherItem\<close> is an item of any type that has no constructor of its own; it
  carries its type tag, its \<^verbatim>\<open>id\<close>, its \<^verbatim>\<open>encrypted_content\<close> when it has one, and
  its remaining fields as one opaque value.  It has no \<^verbatim>\<open>content\<close>, \<^verbatim>\<open>call_id\<close>,
  \<^verbatim>\<open>name\<close> or \<^verbatim>\<open>arguments\<close> field.
\<close>

datatype wire_role = user | assistant

datatype content_entry =
    InputText string          \<comment> \<open>type input_text: text\<close>
  | OutputText string         \<comment> \<open>type output_text: text\<close>
  | InputImage string string  \<comment> \<open>type input_image: detail, image_url\<close>
  | Refusal string            \<comment> \<open>type refusal: refusal\<close>

datatype 'j wire_item =
    Message wire_role "content_entry list"       \<comment> \<open>type message: role, content\<close>
  | FunctionCall string string string            \<comment> \<open>type function_call: call_id, name, arguments\<close>
  | FunctionCallOutput string string             \<comment> \<open>type function_call_output: call_id, output\<close>
  | Reasoning string "string option" "string list"
      \<comment> \<open>type reasoning: id, encrypted_content, summary\<close>
  | OtherItem string string "string option" 'j
      \<comment> \<open>type, id, encrypted_content, remaining fields\<close>

fun item_type :: "'j wire_item \<Rightarrow> string" where
  "item_type (Message r cs) = ''message''"
| "item_type (FunctionCall c n a) = ''function_call''"
| "item_type (FunctionCallOutput c out) = ''function_call_output''"
| "item_type (Reasoning i e s) = ''reasoning''"
| "item_type (OtherItem t i e p) = t"

section \<open>The built-ins of the host language\<close>

text \<open>
  \<^verbatim>\<open>JSON.stringify\<close> and \<^verbatim>\<open>JSON.parse\<close> belong to JavaScript, not to the repository,
  so the translators are modelled over any implementation of them.  \<open>JSON_parse\<close> is
  \<open>None\<close> where \<^verbatim>\<open>JSON.parse\<close> throws its \<^verbatim>\<open>SyntaxError\<close>.  \<open>block_value\<close> and
  \<open>item_value\<close> give the JavaScript object that a block or an item is, which is what
  \<^verbatim>\<open>JSON.stringify(block)\<close> and \<^verbatim>\<open>JSON.stringify(item)\<close> are applied to.
\<close>

record 'j js =
  JSON_stringify :: "'j \<Rightarrow> string"         \<comment> \<open>\<^verbatim>\<open>JSON.stringify(v)\<close>\<close>
  JSON_stringify_2 :: "'j \<Rightarrow> string"       \<comment> \<open>\<^verbatim>\<open>JSON.stringify(v, null, 2)\<close>\<close>
  JSON_parse :: "string \<Rightarrow> 'j option"      \<comment> \<open>\<^verbatim>\<open>JSON.parse(s)\<close>\<close>
  block_value :: "'j block \<Rightarrow> 'j"
  item_value :: "'j wire_item \<Rightarrow> 'j"

section \<open>Outbound translation: formatMessagesForOpenAI\<close>

text \<open>
  Modelled from the spec: the type guards \<^verbatim>\<open>isUserActionContentBlock\<close>,
  \<^verbatim>\<open>isComputerToolUseContentBlock\<close> and \<^verbatim>\<open>isImageContentBlock\<close> are imported from the
  package \<^verbatim>\<open>@bytebot/shared\<close>, whose source is not part of the files at hand.  The spec
  (sections 3 and 4.1) describes them as tests of the block's tag: a \<^verbatim>\<open>UserAction\<close>
  block, a \<^verbatim>\<open>ToolUse\<close> child, an \<^verbatim>\<open>Image\<close> child.
\<close>

fun isUserActionContentBlock :: "'j block \<Rightarrow> bool" where
  "isUserActionContentBlock (UserAction cs) = True"
| "isUserActionContentBlock b = False"

fun isComputerToolUseContentBlock :: "'j block \<Rightarrow> bool" where
  "isComputerToolUseContentBlock (ToolUse i n inp) = True"
| "isComputerToolUseContentBlock b = False"

fun isImageContentBlock :: "'j block \<Rightarrow> bool" where
  "isImageContentBlock (Image mt d) = True"
| "isImageContentBlock b = False"

text \<open>\<^verbatim>\<open>(block) => block.content\<close>, applied only where every block is a UserAction.\<close>

fun userActionContent :: "'j block \<Rightarrow> 'j block list" where
  "userActionContent (UserAction cs) = cs"
| "userActionContent b = []"

text \<open>The user message with one \<^verbatim>\<open>input_image\<close> entry, built at two places of the source.\<close>

definition imageMessage :: "string \<Rightarrow> string \<Rightarrow> 'j wire_item" where
  "imageMessage media_type data =
     Message user [InputImage ''high'' (''data:'' @ media_type @ '';base64,'' @ data)]"

text \<open>The body of the loop over the flattened children of an all-UserAction message.\<close>

fun userActionItems :: "'j js \<Rightarrow> 'j block \<Rightarrow> 'j wire_item list" where
  "userActionItems J b =
     (if isComputerToolUseContentBlock b then
        (case b of
           ToolUse i n inp \<Rightarrow>
             [Message user
                [InputText (''User performed action: '' @ n @ [CHR 0x0A] @ JSON_stringify_2 J inp)]]
         | _ \<Rightarrow> [])
      else if isImageContentBlock b then
        (case b of Image mt d \<Rightarrow> [imageMessage mt d] | _ \<Rightarrow> [])
      else [])"

declare userActionItems.simps [simp del]

text \<open>The body of \<^verbatim>\<open>toolResult.content.forEach\<close>: what one inner entry pushes.\<close>

fun toolResultItems :: "string \<Rightarrow> 'j block \<Rightarrow> 'j wire_item list" where
  "toolResultItems tool_use_id (Text t) = [FunctionCallOutput tool_use_id t]"
| "toolResultItems tool_use_id (Image mt d) =
     [FunctionCallOutput tool_use_id ''screenshot'', imageMessage mt d]"
| "toolResultItems tool_use_id c = []"

text \<open>The \<^verbatim>\<open>switch (block.type)\<close> of the mixed-content path: what one block pushes.\<close>

fun formatBlock :: "'j js \<Rightarrow> role \<Rightarrow> 'j block \<Rightarrow> 'j wire_item list" where
  "formatBlock J r (Text t) =
     (if r = USER then [Message user [InputText t]] else [Message assistant [OutputText t]])"
| "formatBlock J r (ToolUse i n inp) =
     (if r = ASSISTANT then [FunctionCall i n (JSON_stringify J inp)] else [])"
| "formatBlock J r (Thinking th sg) = [Reasoning sg (Some th) []]"
| "formatBlock J r (ToolResult tool_use_id cs) = concat (map (toolResultItems tool_use_id) cs)"
| "formatBlock J r b = [Message user [InputText (JSON_stringify J (block_value J b))]]"

text \<open>The body of \<^verbatim>\<open>for (const message of messages)\<close>.\<close>

definition formatMessage :: "'j js \<Rightarrow> 'j message \<Rightarrow> 'j wire_item list" where
  "formatMessage J m =
     (if list_all isUserActionContentBlock (content m) then
        concat (map (userActionItems J) (concat (map userActionContent (content m))))
      else concat (map (formatBlock J (role m)) (content m)))"

definition formatMessagesForOpenAI :: "'j js \<Rightarrow> 'j message list \<Rightarrow> 'j wire_item list" where
  "formatMessagesForOpenAI J messages = concat (map (formatMessage J) messages)"

section \<open>Inbound translation: formatOpenAIResponse\<close>

text \<open>
  The function returns the content blocks or throws; on its way it may call
  \<^verbatim>\<open>this.logger.warn\<close>.  The model returns the warnings logged, in order, together with
  either the error thrown or the blocks pushed.
\<close>

datatype error = SyntaxError | TypeError

text \<open>What one entry of \<^verbatim>\<open>message.content\<close> pushes: the two \<^verbatim>\<open>in\<close> tests.\<close>

fun contentEntryBlocks :: "content_entry \<Rightarrow> 'j block list" where
  "contentEntryBlocks (InputText t) = [Text t]"
| "contentEntryBlocks (OutputText t) = [Text t]"
| "contentEntryBlocks (Refusal r) = [Text (''Refusal: '' @ r)]"
| "contentEntryBlocks (InputImage d u) = []"

text \<open>
  The fields read through the cast \<^verbatim>\<open>item as ResponseReasoningItem\<close>: \<^verbatim>\<open>id\<close> and
  \<^verbatim>\<open>encrypted_content\<close>.  Only \<open>Reasoning\<close> and \<open>OtherItem\<close> can bear one of the four
  tags of that case, so the last equation is never used by \<open>formatItem\<close>.
\<close>

fun reasoningFields :: "'j wire_item \<Rightarrow> string \<times> string option" where
  "reasoningFields (Reasoning i e s) = (i, e)"
| "reasoningFields (OtherItem t i e p) = (i, e)"
| "reasoningFields it = ([], None)"

text \<open>
  \<^verbatim>\<open>if (reasoning.encrypted_content)\<close> is JavaScript's truthiness test: an absent field
  and the empty string both fail it.
\<close>

fun reasoningBlocks :: "string \<times> string option \<Rightarrow> 'j block list" where
  "reasoningBlocks (i, None) = []"
| "reasoningBlocks (i, Some enc) = (if enc = [] then [] else [Thinking enc i])"

text \<open>
  The body of \<^verbatim>\<open>switch (item.type)\<close>.  An \<open>OtherItem\<close> tagged \<^verbatim>\<open>message\<close> has no
  \<^verbatim>\<open>content\<close> to iterate (a \<^verbatim>\<open>TypeError\<close>), one tagged \<^verbatim>\<open>function_call\<close> has no
  \<^verbatim>\<open>arguments\<close>, and \<^verbatim>\<open>JSON.parse(undefined)\<close> throws.
\<close>

definition formatItem :: "'j js \<Rightarrow> 'j wire_item \<Rightarrow> string list \<times> (error + 'j block list)" where
  "formatItem J item =
     (if item_type item = ''message'' then
        (case item of
           Message r cs \<Rightarrow> ([], Inr (concat (map contentEntryBlocks cs)))
         | _ \<Rightarrow> ([], Inl TypeError))
      else if item_type item = ''function_call'' then
        (case item of
           FunctionCall call_id name arguments \<Rightarrow>
             (case JSON_parse J arguments of
                None \<Rightarrow> ([], Inl SyntaxError)
              | Some v \<Rightarrow> ([], Inr [ToolUse call_id name v]))
         | _ \<Rightarrow> ([], Inl SyntaxError))
      else if item_type item \<in> set [''file_search_call'', ''web_search_call'',
                                    ''computer_call'', ''reasoning''] then
        ([], Inr (reasoningBlocks (reasoningFields item)))
      else if item_type item \<in> set [''image_generation_call'', ''code_interpreter_call'',
                                    ''local_shell_call'', ''mcp_call'', ''mcp_list_tools'',
                                    ''mcp_approval_request''] then
        ([''Unsupported response output item type: '' @ item_type item],
         Inr [Text (JSON_stringify J (item_value J item))])
      else
        ([''Unknown response output item type: '' @ JSON_stringify J (item_value J item)],
         Inr [Text (JSON_stringify J (item_value J item))]))"

text \<open>
  The loop \<^verbatim>\<open>for (const item of response)\<close>: an exception ends it, and the blocks pushed
  so far are lost with it; the warnings already logged stay logged.
\<close>

fun formatOpenAIResponse ::
  "'j js \<Rightarrow> 'j wire_item list \<Rightarrow> string list \<times> (error + 'j block list)" where
  "formatOpenAIResponse J [] = ([], Inr [])"
| "formatOpenAIResponse J (item # items) =
     (case formatItem J item of
        (w, Inl e) \<Rightarrow> (w, Inl e)
      | (w, Inr bs) \<Rightarrow>
          (case formatOpenAIResponse J items of
             (w', Inl e) \<Rightarrow> (w @ w', Inl e)
           | (w', Inr bs') \<Rightarrow> (w @ w', Inr (bs @ bs'))))"

section \<open>A JSON fragment to run the translators on\<close>

text \<open>
  The theorems below hold for every implementation of the built-ins.  To evaluate the
  translators on concrete conversations, this section supplies one: JSON values whose
  numbers are integers, the compact and the two-space serialisations of
  \<^verbatim>\<open>JSON.stringify\<close> for them (strings escape the quote, the backslash and the
  newline), and a recursive-descent parser for the same fragment, which rejects
  fractions, exponents and \<^verbatim>\<open>\u\<close> escapes.
\<close>

datatype json =
    JNull | JBool bool | JNum int | JStr string
  | JArr "json list" | JObj "(string \<times> json) list"

text \<open>The serialisers: \<^verbatim>\<open>JSON.stringify(v)\<close> and \<^verbatim>\<open>JSON.stringify(v, null, 2)\<close>.\<close>

fun intercalate :: "string \<Rightarrow> string list \<Rightarrow> string" where
  "intercalate sep [] = []"
| "intercalate sep [x] = x"
| "intercalate sep (x # y # ys) = x @ sep @ intercalate sep (y # ys)"

function show_nat :: "nat \<Rightarrow> string" where
  "show_nat n =
     (if n < 10 then [''0123456789'' ! n] else show_nat (n div 10) @ [''0123456789'' ! (n mod 10)])"
  by pat_completeness auto
termination
  by (relation "measure id") auto

declare show_nat.simps [simp del]

definition show_int :: "int \<Rightarrow> string" where
  "show_int i = (if i < 0 then CHR ''-'' # show_nat (nat (- i)) else show_nat (nat i))"

fun escape_char :: "char \<Rightarrow> string" where
  "escape_char c =
     (if c = CHR 0x22 then [CHR 0x5C, CHR 0x22]
      else if c = CHR 0x5C then [CHR 0x5C, CHR 0x5C]
      else if c = CHR 0x0A then [CHR 0x5C, CHR ''n'']
      else [c])"

definition quote :: "string \<Rightarrow> string" where
  "quote s = [CHR 0x22] @ concat (map escape_char s) @ [CHR 0x22]"

fun json_stringify :: "json \<Rightarrow> string" where
  "json_stringify JNull = ''null''"
| "json_stringify (JBool b) = (if b then ''true'' else ''false'')"
| "json_stringify (JNum i) = show_int i"
| "json_stringify (JStr s) = quote s"
| "json_stringify (JArr vs) = ''['' @ intercalate '','' (map json_stringify vs) @ '']''"
| "json_stringify (JObj kvs) =
     ''{'' @ intercalate '','' (map (\<lambda>(k, v). quote k @ '':'' @ json_stringify v) kvs) @ ''}''"

fun json_indent :: "nat \<Rightarrow> json \<Rightarrow> string" where
  "json_indent n JNull = ''null''"
| "json_indent n (JBool b) = (if b then ''true'' else ''false'')"
| "json_indent n (JNum i) = show_int i"
| "json_indent n (JStr s) = quote s"
| "json_indent n (JArr vs) =
     (if vs = [] then ''[]''
      else ''['' @ [CHR 0x0A] @ replicate (n + 2) CHR '' '' @
           intercalate ('','' @ [CHR 0x0A] @ replicate (n + 2) CHR '' '') (map (json_indent (n + 2)) vs) @
           [CHR 0x0A] @ replicate n CHR '' '' @ '']'')"
| "json_indent n (JObj kvs) =
     (if kvs = [] then ''{}''
      else ''{'' @ [CHR 0x0A] @ replicate (n + 2) CHR '' '' @
           intercalate ('','' @ [CHR 0x0A] @ replicate (n + 2) CHR '' '')
             (map (\<lambda>(k, v). quote k @ '': '' @ json_indent (n + 2) v) kvs) @
           [CHR 0x0A] @ replicate n CHR '' '' @ ''}'')"

text \<open>
  The parser.  The first argument of \<open>parse_value\<close>, \<open>parse_elements\<close> and
  \<open>parse_members\<close> is fuel, one cell for each nested call; \<open>json_parse\<close> supplies two cells
  for each character of the text, and two more.  A text that is not in the fragment, or
  that leaves anything but white space behind the value, gives \<open>None\<close>.
\<close>

fun skip_ws :: "string \<Rightarrow> string" where
  "skip_ws [] = []"
| "skip_ws (c # cs) =
     (if c = CHR '' '' \<or> c = CHR 0x0A \<or> c = CHR 0x0D \<or> c = CHR 0x09 then skip_ws cs else c # cs)"

definition is_digit :: "char \<Rightarrow> bool" where
  "is_digit c = (48 \<le> (of_char c :: nat) \<and> (of_char c :: nat) \<le> 57)"

fun parse_chars :: "string \<Rightarrow> (string \<times> string) option" where
  "parse_chars [] = None"
| "parse_chars (c # cs) =
     (if c = CHR 0x22 then Some ([], cs)
      else if c = CHR 0x5C then
        (case cs of
           [] \<Rightarrow> None
         | e # cs' \<Rightarrow>
             (if e = CHR 0x22 \<or> e = CHR 0x5C \<or> e = CHR ''/'' then
                map_option (\<lambda>(s, r). (e # s, r)) (parse_chars cs')
              else if e = CHR ''n'' then
                map_option (\<lambda>(s, r). (CHR 0x0A # s, r)) (parse_chars cs')
              else None))
      else map_option (\<lambda>(s, r). (c # s, r)) (parse_chars cs))"

definition parse_number :: "string \<Rightarrow> (json \<times> string) option" where
  "parse_number s =
     (let neg = (take 1 s = ''-'');
          t = (if neg then drop 1 s else s);
          ds = takeWhile is_digit t;
          r = dropWhile is_digit t;
          n = foldl (\<lambda>a c. 10 * a + ((of_char c :: nat) - 48)) (0::nat) ds
      in if ds = [] \<or> (length ds > 1 \<and> take 1 ds = ''0'') then None
         else if take 1 r = ''.'' \<or> take 1 r = ''e'' \<or> take 1 r = ''E'' then None
         else Some (JNum (if neg then - int n else int n), r))"

fun parse_value :: "'a list \<Rightarrow> string \<Rightarrow> (json \<times> string) option"
and parse_elements :: "'a list \<Rightarrow> string \<Rightarrow> (json list \<times> string) option"
and parse_members :: "'a list \<Rightarrow> string \<Rightarrow> ((string \<times> json) list \<times> string) option" where
  "parse_value [] s = None"
| "parse_value (f # fuel) s =
     (case skip_ws s of
        [] \<Rightarrow> None
      | c # cs \<Rightarrow>
          (if c = CHR ''n'' then (if take 3 cs = ''ull'' then Some (JNull, drop 3 cs) else None)
           else if c = CHR ''t'' then
             (if take 3 cs = ''rue'' then Some (JBool True, drop 3 cs) else None)
           else if c = CHR ''f'' then
             (if take 4 cs = ''alse'' then Some (JBool False, drop 4 cs) else None)
           else if c = CHR 0x22 then map_option (\<lambda>(k, r). (JStr k, r)) (parse_chars cs)
           else if c = CHR ''['' then
             (case skip_ws cs of
                [] \<Rightarrow> None
              | d # ds \<Rightarrow>
                  (if d = CHR '']'' then Some (JArr [], ds)
                   else map_option (\<lambda>(vs, r). (JArr vs, r)) (parse_elements fuel cs)))
           else if c = CHR ''{'' then
             (case skip_ws cs of
                [] \<Rightarrow> None
              | d # ds \<Rightarrow>
                  (if d = CHR ''}'' then Some (JObj [], ds)
                   else map_option (\<lambda>(kvs, r). (JObj kvs, r)) (parse_members fuel cs)))
           else parse_number (c # cs)))"
| "parse_elements [] s = None"
| "parse_elements (f # fuel) s =
     (case parse_value fuel s of
        None \<Rightarrow> None
      | Some (v, r) \<Rightarrow>
          (case skip_ws r of
             [] \<Rightarrow> None
           | d # ds \<Rightarrow>
               (if d = CHR '','' then map_option (\<lambda>(vs, r'). (v # vs, r')) (parse_elements fuel ds)
                else if d = CHR '']'' then Some ([v], ds)
                else None)))"
| "parse_members [] s = None"
| "parse_members (f # fuel) s =
     (case skip_ws s of
        [] \<Rightarrow> None
      | q # cs \<Rightarrow>
          (if q \<noteq> CHR 0x22 then None
           else
             (case parse_chars cs of
                None \<Rightarrow> None
              | Some (k, r) \<Rightarrow>
                  (case skip_ws r of
                     [] \<Rightarrow> None
                   | c # r1 \<Rightarrow>
                       (if c \<noteq> CHR '':'' then None
                        else
                          (case parse_value fuel r1 of
                             None \<Rightarrow> None
                           | Some (v, r2) \<Rightarrow>
                               (case skip_ws r2 of
                                  [] \<Rightarrow> None
                                | d # ds \<Rightarrow>
                                    (if d = CHR '','' then
                                       map_option (\<lambda>(kvs, r'). ((k, v) # kvs, r'))
                                         (parse_members fuel ds)
                                     else if d = CHR ''}'' then Some ([(k, v)], ds)
                                     else None))))))))"

definition json_parse :: "string \<Rightarrow> json option" where
  "json_parse s =
     (case parse_value (s @ s @ ''..'') s of
        None \<Rightarrow> None
      | Some (v, r) \<Rightarrow> if skip_ws r = [] then Some v else None)"

text \<open>
  The objects that blocks and items are.  The field names are those of sections 3 and 6
  of the spec and of the object literals in the source; the tag strings of the block
  variants are not defined in the files at hand and are taken to be the snake-case
  variant names.
\<close>

fun block_json :: "json block \<Rightarrow> json" where
  "block_json (Text t) = JObj [(''type'', JStr ''text''), (''text'', JStr t)]"
| "block_json (ToolUse i n inp) =
     JObj [(''type'', JStr ''tool_use''), (''id'', JStr i), (''name'', JStr n), (''input'', inp)]"
| "block_json (ToolResult tid cs) =
     JObj [(''type'', JStr ''tool_result''), (''tool_use_id'', JStr tid),
           (''content'', JArr (map block_json cs))]"
| "block_json (Thinking th sg) =
     JObj [(''type'', JStr ''thinking''), (''thinking'', JStr th), (''signature'', JStr sg)]"
| "block_json (Image mt d) =
     JObj [(''type'', JStr ''image''),
           (''source'', JObj [(''media_type'', JStr mt), (''data'', JStr d)])]"
| "block_json (UserAction cs) =
     JObj [(''type'', JStr ''user_action''), (''content'', JArr (map block_json cs))]"
| "block_json (OtherBlock v) = v"

fun entry_json :: "content_entry \<Rightarrow> json" where
  "entry_json (InputText t) = JObj [(''type'', JStr ''input_text''), (''text'', JStr t)]"
| "entry_json (OutputText t) = JObj [(''type'', JStr ''output_text''), (''text'', JStr t)]"
| "entry_json (InputImage d u) =
     JObj [(''type'', JStr ''input_image''), (''detail'', JStr d), (''image_url'', JStr u)]"
| "entry_json (Refusal r) = JObj [(''type'', JStr ''refusal''), (''refusal'', JStr r)]"

fun encrypted_content_field :: "string option \<Rightarrow> (string \<times> json) list" where
  "encrypted_content_field None = []"
| "encrypted_content_field (Some enc) = [(''encrypted_content'', JStr enc)]"

fun object_fields :: "json \<Rightarrow> (string \<times> json) list" where
  "object_fields (JObj kvs) = kvs"
| "object_fields v = []"

fun item_json :: "json wire_item \<Rightarrow> json" where
  "item_json (Message r cs) =
     JObj [(''type'', JStr ''message''),
           (''role'', JStr (if r = user then ''user'' else ''assistant'')),
           (''content'', JArr (map entry_json cs))]"
| "item_json (FunctionCall c n a) =
     JObj [(''type'', JStr ''function_call''), (''call_id'', JStr c), (''name'', JStr n),
           (''arguments'', JStr a)]"
| "item_json (FunctionCallOutput c out) =
     JObj [(''type'', JStr ''function_call_output''), (''call_id'', JStr c),
           (''output'', JStr out)]"
| "item_json (Reasoning i e s) =
     JObj ([(''type'', JStr ''reasoning''), (''id'', JStr i)] @ encrypted_content_field e @
           [(''summary'', JArr (map JStr s))])"
| "item_json (OtherItem t i e p) =
     JObj ([(''type'', JStr t), (''id'', JStr i)] @ encrypted_content_field e @ object_fields p)"

definition JS :: "json js" where
  "JS = \<lparr>JSON_stringify = json_stringify, JSON_stringify_2 = json_indent 0,
          JSON_parse = json_parse, block_value = block_json, item_value = item_json\<rparr>"

section \<open>Composition of the loops\<close>

lemma formatMessagesForOpenAI_Nil [simp]: "formatMessagesForOpenAI J [] = []"
  by (simp add: formatMessagesForOpenAI_def)

lemma formatMessagesForOpenAI_append:
  "formatMessagesForOpenAI J (xs @ ys) = formatMessagesForOpenAI J xs @ formatMessagesForOpenAI J ys"
  by (simp add: formatMessagesForOpenAI_def)

lemma formatMessagesForOpenAI_single: "formatMessagesForOpenAI J [m] = formatMessage J m"
  by (simp add: formatMessagesForOpenAI_def)

lemma formatMessagesForOpenAI_around:
  "formatMessagesForOpenAI J (ms1 @ m # ms2) =
     formatMessagesForOpenAI J ms1 @ formatMessage J m @ formatMessagesForOpenAI J ms2"
  by (simp add: formatMessagesForOpenAI_def)

lemma formatMessage_mixed:
  "\<not> list_all isUserActionContentBlock bs \<Longrightarrow>
     formatMessage J \<lparr>role = r, content = bs\<rparr> = concat (map (formatBlock J r) bs)"
  by (simp add: formatMessage_def)

lemma formatMessage_mixed_around:
  "\<not> isUserActionContentBlock b \<Longrightarrow>
     formatMessage J \<lparr>role = r, content = bs1 @ b # bs2\<rparr> =
       concat (map (formatBlock J r) bs1) @ formatBlock J r b @ concat (map (formatBlock J r) bs2)"
  by (simp add: formatMessage_def)

lemma userActionContent_flatten: "concat (map userActionContent (map UserAction css)) = concat css"
  by (induction css) simp_all

lemma formatMessage_all_UserAction:
  "formatMessage J \<lparr>role = r, content = map UserAction css\<rparr> =
     concat (map (userActionItems J) (concat css))"
proof -
  have "list_all isUserActionContentBlock (map UserAction css)"
    by (induction css) simp_all
  then show ?thesis
    by (simp only: formatMessage_def message.simps userActionContent_flatten if_True)
qed

lemma formatOpenAIResponse_single: "formatOpenAIResponse J [item] = formatItem J item"
  by (simp split: prod.splits sum.splits)

lemma formatOpenAIResponse_append_Inl:
  "formatOpenAIResponse J xs = (w, Inl e) \<Longrightarrow> formatOpenAIResponse J (xs @ ys) = (w, Inl e)"
  by (induction xs arbitrary: w) (auto split: prod.splits sum.splits)

lemma formatOpenAIResponse_append_Inr:
  "formatOpenAIResponse J xs = (w, Inr bs) \<Longrightarrow>
     formatOpenAIResponse J (xs @ ys) =
       (case formatOpenAIResponse J ys of
          (w', Inl e) \<Rightarrow> (w @ w', Inl e)
        | (w', Inr bs') \<Rightarrow> (w @ w', Inr (bs @ bs')))"
  by (induction xs arbitrary: w bs) (auto split: prod.splits sum.splits)

lemma formatOpenAIResponse_around:
  assumes "formatOpenAIResponse J pre = (w1, Inr b1)"
    and "formatItem J item = (w, Inr b)"
    and "formatOpenAIResponse J post = (w2, Inr b2)"
  shows "formatOpenAIResponse J (pre @ [item] @ post) = (w1 @ w @ w2, Inr (b1 @ b @ b2))"
proof -
  have "formatOpenAIResponse J ([item] @ post) = (w @ w2, Inr (b @ b2))"
    using assms(2,3) by simp
  then show ?thesis
    using formatOpenAIResponse_append_Inr [OF assms(1), of "[item] @ post"] by simp
qed

lemma formatOpenAIResponse_raises:
  assumes "formatItem J item = (w, Inl e)"
  shows "\<exists>w' e'. formatOpenAIResponse J (pre @ [item] @ post) = (w', Inl e')"
proof (cases "formatOpenAIResponse J pre")
  case (Pair w1 r)
  have item: "formatOpenAIResponse J ([item] @ post) = (w, Inl e)"
    using assms by simp
  show ?thesis
  proof (cases r)
    case (Inl e1)
    then show ?thesis
      using formatOpenAIResponse_append_Inl [of J pre w1 e1 "[item] @ post"] Pair by auto
  next
    case (Inr b1)
    then show ?thesis
      using formatOpenAIResponse_append_Inr [of J pre w1 b1 "[item] @ post"] Pair item by auto
  qed
qed

lemma userActionItems_cases:
  "userActionItems J c =
     (case c of
        ToolUse i n inp \<Rightarrow>
          [Message user
             [InputText (''User performed action: '' @ n @ [CHR 0x0A] @ JSON_stringify_2 J inp)]]
      | Image mt d \<Rightarrow> [Message user [InputImage ''high'' (''data:'' @ mt @ '';base64,'' @ d)]]
      | _ \<Rightarrow> [])"
  by (cases c) (simp_all add: userActionItems.simps imageMessage_def)

lemma userActionItems_no_function_call: "FunctionCall cid n a \<notin> set (userActionItems J c)"
  by (cases c) (simp_all add: userActionItems.simps imageMessage_def)

lemma length_reasoningBlocks: "length (reasoningBlocks x) \<le> 1"
  by (cases x rule: reasoningBlocks.cases) simp_all

lemma formatItem_reasoning:
  assumes "item = Reasoning i e s \<or>
           (item = OtherItem t i e p \<and>
            t \<in> set [''file_search_call'', ''web_search_call'', ''computer_call'', ''reasoning''])"
  shows "formatItem J item = ([], Inr (reasoningBlocks (i, e)))"
  using assms by (auto simp: formatItem_def)

lemma formatItem_fallback:
  assumes "item_type item \<notin> set [''message'', ''function_call'', ''file_search_call'',
                                   ''web_search_call'', ''computer_call'', ''reasoning'']"
  shows "formatItem J item =
     ([if item_type item \<in> set [''image_generation_call'', ''code_interpreter_call'',
                                  ''local_shell_call'', ''mcp_call'', ''mcp_list_tools'',
                                  ''mcp_approval_request'']
       then ''Unsupported response output item type: '' @ item_type item
       else ''Unknown response output item type: '' @ JSON_stringify J (item_value J item)],
      Inr [Text (JSON_stringify J (item_value J item))])"
  using assms by (simp add: formatItem_def)

lemma formatItem_yield:
  assumes "formatItem J item = (w, Inr bs)"
  shows "(item_type item \<noteq> ''message'' \<longrightarrow> length bs \<le> 1) \<and> (bs = [] \<longrightarrow> w = []) \<and>
         (w \<noteq> [] \<longrightarrow> (\<exists>t. bs = [Text t])) \<and>
         (bs = [] \<longrightarrow> item_type item \<in> set [''message'', ''file_search_call'',
            ''web_search_call'', ''computer_call'', ''reasoning''])"
proof -
  have "length (reasoningBlocks (reasoningFields item)) \<le> 1"
    by (rule length_reasoningBlocks)
  then show ?thesis
    using assms
    by (auto simp: formatItem_def split: if_splits wire_item.splits option.splits)
qed

lemma formatOpenAIResponse_items:
  "formatOpenAIResponse J items = (w, Inr bs) \<Longrightarrow>
     w = concat (map (\<lambda>it. fst (formatItem J it)) items) \<and>
     bs = concat (map (\<lambda>it. projr (snd (formatItem J it))) items) \<and>
     (\<forall>it \<in> set items. \<exists>wi bi. formatItem J it = (wi, Inr bi))"
proof (induction items arbitrary: w bs)
  case Nil
  then show ?case by simp
next
  case (Cons item items)
  then obtain wi bi w' bs' where
    item: "formatItem J item = (wi, Inr bi)" and
    rest: "formatOpenAIResponse J items = (w', Inr bs')" and
    res: "w = wi @ w'" "bs = bi @ bs'"
    by (auto split: prod.splits sum.splits)
  from Cons.IH [OF rest] item res show ?case by simp
qed

text \<open>The equations that evaluate the translators over the JSON fragment.\<close>

lemmas run_JSON = JS_def json_parse_def quote_def show_int_def show_nat.simps parse_number_def
  is_digit_def

lemmas run_translators = formatMessagesForOpenAI_def formatMessage_def imageMessage_def
  userActionItems.simps formatItem_def

section \<open>Outbound translation of tool results, tool calls and text\<close>

text \<open>
  Claim C1.  A \<^verbatim>\<open>ToolResult\<close> block among the blocks of a message is translated entry by
  entry, in order, at its place in the output.  An inner \<^verbatim>\<open>Image\<close> entry yields exactly
  two items: a \<^verbatim>\<open>function_call_output\<close> item whose call_id is the block's tool_use_id
  and whose output is the string \<^verbatim>\<open>screenshot\<close>, then a user message with the single
  entry \<^verbatim>\<open>input_image\<close> whose image_url is \<^verbatim>\<open>data:\<close> + media_type + \<^verbatim>\<open>;base64,\<close> +
  data.  An inner \<^verbatim>\<open>Text\<close> entry yields exactly one \<^verbatim>\<open>function_call_output\<close> item with
  that call_id and the text as output.
\<close>

theorem tool_result_entry_items:
  "formatMessagesForOpenAI J
     (ms1 @ [\<lparr>role = r, content = bs1 @ [ToolResult tid (cs1 @ [Image mt d] @ cs2)] @ bs2\<rparr>] @ ms2) =
   formatMessagesForOpenAI J ms1 @ concat (map (formatBlock J r) bs1) @
   concat (map (toolResultItems tid) cs1) @
   [FunctionCallOutput tid ''screenshot'',
    Message user [InputImage ''high'' (''data:'' @ mt @ '';base64,'' @ d)]] @
   concat (map (toolResultItems tid) cs2) @
   concat (map (formatBlock J r) bs2) @ formatMessagesForOpenAI J ms2
   \<and>
   formatMessagesForOpenAI J
     (ms1 @ [\<lparr>role = r, content = bs1 @ [ToolResult tid (cs1 @ [Text t] @ cs2)] @ bs2\<rparr>] @ ms2) =
   formatMessagesForOpenAI J ms1 @ concat (map (formatBlock J r) bs1) @
   concat (map (toolResultItems tid) cs1) @
   [FunctionCallOutput tid t] @
   concat (map (toolResultItems tid) cs2) @
   concat (map (formatBlock J r) bs2) @ formatMessagesForOpenAI J ms2"
  by (simp add: formatMessagesForOpenAI_around formatMessage_mixed_around imageMessage_def)

theorem tool_result_entry_items_witness:
  "formatMessagesForOpenAI JS
     [\<lparr>role = USER, content = [ToolResult ''call_1'' [Image ''image/png'' ''AAA='']]\<rparr>] =
   [FunctionCallOutput ''call_1'' ''screenshot'',
    Message user [InputImage ''high'' ''data:image/png;base64,AAA='']]
   \<and>
   formatMessagesForOpenAI JS
     [\<lparr>role = USER, content = [ToolResult ''call_1'' [Text ''done'', Image ''image/png'' ''AAA='']]\<rparr>] =
   [FunctionCallOutput ''call_1'' ''done'', FunctionCallOutput ''call_1'' ''screenshot'',
    Message user [InputImage ''high'' ''data:image/png;base64,AAA='']]"
  using tool_result_entry_items [where J = JS and ?ms1.0 = "[]" and ?ms2.0 = "[]" and r = USER
      and ?bs1.0 = "[]" and ?bs2.0 = "[]" and tid = "''call_1''" and ?cs1.0 = "[]"
      and ?cs2.0 = "[]" and mt = "''image/png''" and d = "''AAA=''"]
    tool_result_entry_items [where J = JS and ?ms1.0 = "[]" and ?ms2.0 = "[]" and r = USER
      and ?bs1.0 = "[]" and ?bs2.0 = "[]" and tid = "''call_1''" and ?cs1.0 = "[]"
      and ?cs2.0 = "[Image ''image/png'' ''AAA='']" and t = "''done''"]
  by (simp add: formatMessagesForOpenAI_def imageMessage_def)

text \<open>
  Claim C2.  A message that has a \<^verbatim>\<open>ToolUse\<close> block among its blocks takes the
  mixed-content path.  On an ASSISTANT message the block is translated to exactly one
  \<^verbatim>\<open>function_call\<close> item whose call_id is the block's id, whose name is the block's name
  and whose arguments are \<^verbatim>\<open>JSON.stringify\<close> of the block's input; on a USER message it
  produces no item.  Where \<^verbatim>\<open>JSON.parse\<close> inverts \<^verbatim>\<open>JSON.stringify\<close> on the input, the
  arguments parse back to the input: the inbound translation of the item is the
  \<^verbatim>\<open>ToolUse\<close> block again.
\<close>

theorem tool_use_function_call:
  "formatMessagesForOpenAI J
     (ms1 @ [\<lparr>role = ASSISTANT, content = bs1 @ [ToolUse i n inp] @ bs2\<rparr>] @ ms2) =
   formatMessagesForOpenAI J ms1 @ concat (map (formatBlock J ASSISTANT) bs1) @
   [FunctionCall i n (JSON_stringify J inp)] @
   concat (map (formatBlock J ASSISTANT) bs2) @ formatMessagesForOpenAI J ms2
   \<and>
   formatMessagesForOpenAI J
     (ms1 @ [\<lparr>role = USER, content = bs1 @ [ToolUse i n inp] @ bs2\<rparr>] @ ms2) =
   formatMessagesForOpenAI J ms1 @ concat (map (formatBlock J USER) bs1) @
   concat (map (formatBlock J USER) bs2) @ formatMessagesForOpenAI J ms2
   \<and>
   (JSON_parse J (JSON_stringify J inp) = Some inp \<longrightarrow>
      formatOpenAIResponse J
        (formatMessagesForOpenAI J [\<lparr>role = ASSISTANT, content = [ToolUse i n inp]\<rparr>]) =
      ([], Inr [ToolUse i n inp]))"
  by (simp add: formatMessagesForOpenAI_around formatMessage_mixed_around
        formatMessagesForOpenAI_single formatMessage_mixed formatItem_def)

theorem tool_use_function_call_witness:
  "formatMessagesForOpenAI JS
     [\<lparr>role = ASSISTANT,
       content = [ToolUse ''call_1'' ''click'' (JObj [(''x'', JNum 1), (''y'', JNum 2)])]\<rparr>] =
   [FunctionCall ''call_1'' ''click'' (''{'' @ [CHR 0x22] @ ''x'' @ [CHR 0x22] @ '':1,'' @
                                       [CHR 0x22] @ ''y'' @ [CHR 0x22] @ '':2}'')]
   \<and>
   formatMessagesForOpenAI JS
     [\<lparr>role = USER,
       content = [ToolUse ''call_1'' ''click'' (JObj [(''x'', JNum 1), (''y'', JNum 2)])]\<rparr>] = []
   \<and>
   JSON_parse JS (JSON_stringify JS (JObj [(''x'', JNum 1), (''y'', JNum 2)])) =
     Some (JObj [(''x'', JNum 1), (''y'', JNum 2)])
   \<and>
   formatOpenAIResponse JS
     (formatMessagesForOpenAI JS
        [\<lparr>role = ASSISTANT,
          content = [ToolUse ''call_1'' ''click'' (JObj [(''x'', JNum 1), (''y'', JNum 2)])]\<rparr>]) =
   ([], Inr [ToolUse ''call_1'' ''click'' (JObj [(''x'', JNum 1), (''y'', JNum 2)])])"
proof -
  have parsed: "JSON_parse JS (JSON_stringify JS (JObj [(''x'', JNum 1), (''y'', JNum 2)])) =
      Some (JObj [(''x'', JNum 1), (''y'', JNum 2)])"
    by (simp add: run_JSON)
  have rendered: "JSON_stringify JS (JObj [(''x'', JNum 1), (''y'', JNum 2)]) =
      ''{'' @ [CHR 0x22] @ ''x'' @ [CHR 0x22] @ '':1,'' @ [CHR 0x22] @ ''y'' @ [CHR 0x22] @ '':2}''"
    by (simp add: run_JSON)
  show ?thesis
    using parsed rendered
      tool_use_function_call [where J = JS and ?ms1.0 = "[]" and ?ms2.0 = "[]"
        and ?bs1.0 = "[]" and ?bs2.0 = "[]" and i = "''call_1''" and n = "''click''"
        and inp = "JObj [(''x'', JNum 1), (''y'', JNum 2)]"]
    by (simp add: run_translators)
qed

text \<open>
  Claim C5.  A message that has a \<^verbatim>\<open>Text\<close> block among its blocks takes the
  mixed-content path, and the block is translated to one message item with a single
  entry that carries the text unchanged: \<^verbatim>\<open>input_text\<close> under the role user when the
  message's role is USER, \<^verbatim>\<open>output_text\<close> under the role assistant otherwise.  The
  inbound translation of the item so produced is the \<^verbatim>\<open>Text\<close> block with the same text.
\<close>

theorem text_block_round_trip:
  "formatMessagesForOpenAI J (ms1 @ [\<lparr>role = r, content = bs1 @ [Text t] @ bs2\<rparr>] @ ms2) =
   formatMessagesForOpenAI J ms1 @ concat (map (formatBlock J r) bs1) @
   (if r = USER then [Message user [InputText t]] else [Message assistant [OutputText t]]) @
   concat (map (formatBlock J r) bs2) @ formatMessagesForOpenAI J ms2
   \<and>
   formatOpenAIResponse J (formatMessagesForOpenAI J [\<lparr>role = r, content = [Text t]\<rparr>]) =
   ([], Inr [Text t])"
  by (simp add: formatMessagesForOpenAI_around formatMessage_mixed_around
        formatMessagesForOpenAI_single formatMessage_mixed formatItem_def)

theorem text_block_round_trip_witness:
  "formatMessagesForOpenAI JS [\<lparr>role = USER, content = [Text ''open the browser'']\<rparr>] =
   [Message user [InputText ''open the browser'']]
   \<and>
   formatMessagesForOpenAI JS [\<lparr>role = ASSISTANT, content = [Text ''done'']\<rparr>] =
   [Message assistant [OutputText ''done'']]
   \<and>
   formatOpenAIResponse JS
     (formatMessagesForOpenAI JS [\<lparr>role = ASSISTANT, content = [Text ''done'']\<rparr>]) =
   ([], Inr [Text ''done''])"
  using text_block_round_trip [where J = JS and ?ms1.0 = "[]" and ?ms2.0 = "[]" and r = USER
      and ?bs1.0 = "[]" and ?bs2.0 = "[]" and t = "''open the browser''"]
    text_block_round_trip [where J = JS and ?ms1.0 = "[]" and ?ms2.0 = "[]" and r = ASSISTANT
      and ?bs1.0 = "[]" and ?bs2.0 = "[]" and t = "''done''"]
  by (simp add: formatMessagesForOpenAI_def formatItem_def)

section \<open>Outbound translation of operator actions\<close>

text \<open>
  Claim C3.  A message whose blocks are all \<^verbatim>\<open>UserAction\<close> blocks is translated child by
  child, over the children of all its blocks in order.  A \<^verbatim>\<open>ToolUse\<close> child yields one
  user message with the single \<^verbatim>\<open>input_text\<close> entry \<^verbatim>\<open>User performed action: \<close> + name +
  newline + the input serialised with two-space indentation; an \<^verbatim>\<open>Image\<close> child yields
  one user message with the single \<^verbatim>\<open>input_image\<close> entry of detail \<^verbatim>\<open>high\<close> and the
  data URL; a child of another type yields nothing.  The translation of such a message
  holds no \<^verbatim>\<open>function_call\<close> item.
\<close>

theorem user_action_children:
  assumes "concat css = ch1 @ [c] @ ch2"
  shows "formatMessagesForOpenAI J (ms1 @ [\<lparr>role = r, content = map UserAction css\<rparr>] @ ms2) =
     formatMessagesForOpenAI J ms1 @ concat (map (userActionItems J) ch1) @
     (case c of
        ToolUse i n inp \<Rightarrow>
          [Message user
             [InputText (''User performed action: '' @ n @ [CHR 0x0A] @ JSON_stringify_2 J inp)]]
      | Image mt d \<Rightarrow> [Message user [InputImage ''high'' (''data:'' @ mt @ '';base64,'' @ d)]]
      | _ \<Rightarrow> []) @
     concat (map (userActionItems J) ch2) @ formatMessagesForOpenAI J ms2
     \<and>
     (\<forall>cid n a. FunctionCall cid n a \<notin>
        set (formatMessagesForOpenAI J [\<lparr>role = r, content = map UserAction css\<rparr>]))"
proof -
  have "formatMessage J \<lparr>role = r, content = map UserAction css\<rparr> =
      concat (map (userActionItems J) ch1) @ userActionItems J c @
      concat (map (userActionItems J) ch2)"
    by (simp add: formatMessage_all_UserAction assms)
  moreover have "FunctionCall cid n a \<notin>
      set (formatMessagesForOpenAI J [\<lparr>role = r, content = map UserAction css\<rparr>])" for cid n a
    by (simp add: formatMessagesForOpenAI_single formatMessage_all_UserAction
          userActionItems_no_function_call)
  ultimately show ?thesis
    by (simp add: formatMessagesForOpenAI_around userActionItems_cases)
qed

theorem user_action_children_witness:
  "concat [[ToolUse ''t1'' ''computer_click_mouse'' (JObj [(''x'', JNum 1), (''y'', JNum 2)])],
           [Image ''image/png'' ''AAA='']] =
     [] @ [ToolUse ''t1'' ''computer_click_mouse'' (JObj [(''x'', JNum 1), (''y'', JNum 2)])] @
     [Image ''image/png'' ''AAA='']
   \<and>
   formatMessagesForOpenAI JS
     [\<lparr>role = USER,
       content =
         [UserAction
            [ToolUse ''t1'' ''computer_click_mouse'' (JObj [(''x'', JNum 1), (''y'', JNum 2)])],
          UserAction [Image ''image/png'' ''AAA='']]\<rparr>] =
   [Message user
      [InputText (''User performed action: computer_click_mouse'' @ [CHR 0x0A] @
                  ''{'' @ [CHR 0x0A] @
                  ''  '' @ [CHR 0x22] @ ''x'' @ [CHR 0x22] @ '': 1,'' @ [CHR 0x0A] @
                  ''  '' @ [CHR 0x22] @ ''y'' @ [CHR 0x22] @ '': 2'' @ [CHR 0x0A] @
                  ''}'')],
    Message user [InputImage ''high'' ''data:image/png;base64,AAA='']]"
proof -
  have split: "concat [[ToolUse ''t1'' ''computer_click_mouse''
                          (JObj [(''x'', JNum 1), (''y'', JNum 2)])],
                       [Image ''image/png'' ''AAA='']] =
      [] @ [ToolUse ''t1'' ''computer_click_mouse'' (JObj [(''x'', JNum 1), (''y'', JNum 2)])] @
      [Image ''image/png'' ''AAA='']"
    by simp
  show ?thesis
    using split user_action_children [OF split, where J = JS and ?ms1.0 = "[]" and ?ms2.0 = "[]"
        and r = USER]
    by (simp add: run_translators run_JSON)
qed

section \<open>Inbound translation of tool calls\<close>

text \<open>
  Claim C4.  A \<^verbatim>\<open>function_call\<close> item whose arguments \<^verbatim>\<open>JSON.parse\<close> accepts is translated
  to exactly one \<^verbatim>\<open>ToolUse\<close> block, at its place among the blocks of the items around it,
  with the item's call_id as id, the item's name, and the parsed arguments as input.
  A \<^verbatim>\<open>function_call\<close> item whose arguments \<^verbatim>\<open>JSON.parse\<close> rejects makes the whole
  translation raise, wherever the item stands: no block list is returned at all, hence no
  \<^verbatim>\<open>ToolUse\<close> block without a proper input; the error is the \<^verbatim>\<open>SyntaxError\<close> of the parse
  when the items before translate without error.
\<close>

theorem function_call_arguments:
  "(JSON_parse J a = Some v \<longrightarrow>
      formatOpenAIResponse J pre = (w1, Inr b1) \<longrightarrow>
      formatOpenAIResponse J post = (w2, Inr b2) \<longrightarrow>
      formatOpenAIResponse J (pre @ [FunctionCall c n a] @ post) =
        (w1 @ w2, Inr (b1 @ [ToolUse c n v] @ b2)))
   \<and>
   (JSON_parse J a = None \<longrightarrow>
      (\<exists>w e. formatOpenAIResponse J (pre @ [FunctionCall c n a] @ post) = (w, Inl e)))
   \<and>
   (JSON_parse J a = None \<longrightarrow>
      formatOpenAIResponse J pre = (w1, Inr b1) \<longrightarrow>
      formatOpenAIResponse J (pre @ [FunctionCall c n a] @ post) = (w1, Inl SyntaxError))"
proof (intro conjI impI)
  assume "JSON_parse J a = Some v" and "formatOpenAIResponse J pre = (w1, Inr b1)"
    and "formatOpenAIResponse J post = (w2, Inr b2)"
  moreover from \<open>JSON_parse J a = Some v\<close>
  have "formatItem J (FunctionCall c n a) = ([], Inr [ToolUse c n v])"
    by (simp add: formatItem_def)
  ultimately show "formatOpenAIResponse J (pre @ [FunctionCall c n a] @ post) =
      (w1 @ w2, Inr (b1 @ [ToolUse c n v] @ b2))"
    using formatOpenAIResponse_around [of J pre w1 b1 "FunctionCall c n a" "[]" "[ToolUse c n v]"
        post w2 b2]
    by simp
next
  assume "JSON_parse J a = None"
  then have "formatItem J (FunctionCall c n a) = ([], Inl SyntaxError)"
    by (simp add: formatItem_def)
  then show "\<exists>w e. formatOpenAIResponse J (pre @ [FunctionCall c n a] @ post) = (w, Inl e)"
    by (rule formatOpenAIResponse_raises)
next
  assume "JSON_parse J a = None" and pre: "formatOpenAIResponse J pre = (w1, Inr b1)"
  then have "formatOpenAIResponse J ([FunctionCall c n a] @ post) = ([], Inl SyntaxError)"
    by (simp add: formatItem_def)
  then show "formatOpenAIResponse J (pre @ [FunctionCall c n a] @ post) = (w1, Inl SyntaxError)"
    using formatOpenAIResponse_append_Inr [OF pre, of "[FunctionCall c n a] @ post"] by simp
qed

theorem function_call_arguments_witness:
  "JSON_parse JS (''{'' @ [CHR 0x22] @ ''x'' @ [CHR 0x22] @ '':1}'') = Some (JObj [(''x'', JNum 1)])
   \<and>
   formatOpenAIResponse JS
     ([Message assistant [OutputText ''clicking'']] @
      [FunctionCall ''call_1'' ''click'' (''{'' @ [CHR 0x22] @ ''x'' @ [CHR 0x22] @ '':1}'')] @
      []) =
   ([], Inr [Text ''clicking'', ToolUse ''call_1'' ''click'' (JObj [(''x'', JNum 1)])])
   \<and>
   JSON_parse JS ''not json'' = None
   \<and>
   formatOpenAIResponse JS
     ([Message assistant [OutputText ''clicking'']] @
      [FunctionCall ''call_1'' ''click'' ''not json''] @
      [Message assistant [OutputText ''done'']]) =
   ([], Inl SyntaxError)"
proof -
  have good: "JSON_parse JS (''{'' @ [CHR 0x22] @ ''x'' @ [CHR 0x22] @ '':1}'') =
      Some (JObj [(''x'', JNum 1)])"
    by (simp add: run_JSON)
  have bad: "JSON_parse JS ''not json'' = None"
    by (simp add: run_JSON)
  have pre: "formatOpenAIResponse JS [Message assistant [OutputText ''clicking'']] =
      ([], Inr [Text ''clicking''])"
    by (simp add: formatItem_def)
  have post: "formatOpenAIResponse JS [] = ([], Inr [])"
    by simp
  show ?thesis
    using good bad pre post
      function_call_arguments [where J = JS and pre = "[Message assistant [OutputText ''clicking'']]"
        and post = "[]" and ?w1.0 = "[]" and ?w2.0 = "[]" and ?b1.0 = "[Text ''clicking'']"
        and ?b2.0 = "[]" and c = "''call_1''" and n = "''click''"
        and a = "''{'' @ [CHR 0x22] @ ''x'' @ [CHR 0x22] @ '':1}''"
        and v = "JObj [(''x'', JNum 1)]"]
      function_call_arguments [where J = JS and pre = "[Message assistant [OutputText ''clicking'']]"
        and post = "[Message assistant [OutputText ''done'']]" and ?w1.0 = "[]"
        and ?b1.0 = "[Text ''clicking'']" and c = "''call_1''" and n = "''click''"
        and a = "''not json''"]
    by simp
qed

section \<open>Reasoning items\<close>

text \<open>
  Claim C6, as the code has it.  A \<^verbatim>\<open>Thinking\<close> block among the blocks of a message is
  translated to exactly one \<^verbatim>\<open>reasoning\<close> item whose id is the block's signature, whose
  encrypted_content is the block's thinking payload unchanged, and whose summary is empty.
  Inbound, an item tagged \<^verbatim>\<open>reasoning\<close>, \<^verbatim>\<open>file_search_call\<close>, \<^verbatim>\<open>web_search_call\<close> or
  \<^verbatim>\<open>computer_call\<close> yields exactly one \<^verbatim>\<open>Thinking\<close> block, with the encrypted_content as
  thinking and the id as signature, when its encrypted_content is present and not the
  empty string; it yields no block, and no warning, when the encrypted_content is absent
  or empty.  A \<^verbatim>\<open>Thinking\<close> block with a non-empty payload round-trips with both fields
  unchanged.
\<close>

theorem thinking_reasoning_items:
  "formatMessagesForOpenAI J (ms1 @ [\<lparr>role = r, content = bs1 @ [Thinking th sg] @ bs2\<rparr>] @ ms2) =
   formatMessagesForOpenAI J ms1 @ concat (map (formatBlock J r) bs1) @
   [Reasoning sg (Some th) []] @
   concat (map (formatBlock J r) bs2) @ formatMessagesForOpenAI J ms2
   \<and>
   (item = Reasoning i e s \<or>
    (item = OtherItem t i e p \<and>
     t \<in> set [''file_search_call'', ''web_search_call'', ''computer_call'', ''reasoning'']) \<longrightarrow>
    formatOpenAIResponse J pre = (w1, Inr b1) \<longrightarrow>
    formatOpenAIResponse J post = (w2, Inr b2) \<longrightarrow>
    formatOpenAIResponse J (pre @ [item] @ post) =
      (w1 @ w2,
       Inr (b1 @
            (case e of
               None \<Rightarrow> []
             | Some enc \<Rightarrow> if enc = [] then [] else [Thinking enc i]) @
            b2)))
   \<and>
   (th \<noteq> [] \<longrightarrow>
      formatOpenAIResponse J (formatMessagesForOpenAI J [\<lparr>role = r, content = [Thinking th sg]\<rparr>]) =
      ([], Inr [Thinking th sg]))"
proof (intro conjI impI)
  show "formatMessagesForOpenAI J
      (ms1 @ [\<lparr>role = r, content = bs1 @ [Thinking th sg] @ bs2\<rparr>] @ ms2) =
    formatMessagesForOpenAI J ms1 @ concat (map (formatBlock J r) bs1) @
    [Reasoning sg (Some th) []] @
    concat (map (formatBlock J r) bs2) @ formatMessagesForOpenAI J ms2"
    by (simp add: formatMessagesForOpenAI_around formatMessage_mixed_around)
next
  assume shape: "item = Reasoning i e s \<or>
      (item = OtherItem t i e p \<and>
       t \<in> set [''file_search_call'', ''web_search_call'', ''computer_call'', ''reasoning''])"
    and pre: "formatOpenAIResponse J pre = (w1, Inr b1)"
    and post: "formatOpenAIResponse J post = (w2, Inr b2)"
  have blocks: "reasoningBlocks (i, e) =
      (case e of None \<Rightarrow> [] | Some enc \<Rightarrow> if enc = [] then [] else [Thinking enc i])"
    by (cases e) simp_all
  show "formatOpenAIResponse J (pre @ [item] @ post) =
      (w1 @ w2,
       Inr (b1 @
            (case e of
               None \<Rightarrow> []
             | Some enc \<Rightarrow> if enc = [] then [] else [Thinking enc i]) @
            b2))"
    using formatOpenAIResponse_around [OF pre formatItem_reasoning [OF shape] post] blocks
    by simp
next
  assume "th \<noteq> []"
  then show "formatOpenAIResponse J
      (formatMessagesForOpenAI J [\<lparr>role = r, content = [Thinking th sg]\<rparr>]) =
    ([], Inr [Thinking th sg])"
    by (simp add: formatMessagesForOpenAI_single formatMessage_mixed formatItem_def)
qed

theorem thinking_reasoning_items_witness:
  "formatMessagesForOpenAI JS
     [\<lparr>role = ASSISTANT, content = [Thinking ''gAAAAB'' ''rs_1'']\<rparr>] =
   [Reasoning ''rs_1'' (Some ''gAAAAB'') []]
   \<and>
   formatOpenAIResponse JS
     ([] @ [OtherItem ''web_search_call'' ''ws_1'' None (JObj [(''status'', JStr ''completed'')])] @
      [Reasoning ''rs_1'' (Some ''gAAAAB'') []]) =
   ([], Inr [Thinking ''gAAAAB'' ''rs_1''])
   \<and>
   ''gAAAAB'' \<noteq> []
   \<and>
   formatOpenAIResponse JS
     (formatMessagesForOpenAI JS [\<lparr>role = ASSISTANT, content = [Thinking ''gAAAAB'' ''rs_1'']\<rparr>]) =
   ([], Inr [Thinking ''gAAAAB'' ''rs_1''])"
proof -
  have post: "formatOpenAIResponse JS [Reasoning ''rs_1'' (Some ''gAAAAB'') []] =
      ([], Inr [Thinking ''gAAAAB'' ''rs_1''])"
    by (simp add: formatItem_def)
  have pre: "formatOpenAIResponse JS [] = ([], Inr [])"
    by simp
  show ?thesis
    using pre post
      thinking_reasoning_items [where J = JS and ?ms1.0 = "[]" and ?ms2.0 = "[]"
        and r = ASSISTANT and ?bs1.0 = "[]" and ?bs2.0 = "[]" and th = "''gAAAAB''"
        and sg = "''rs_1''" and pre = "[]" and ?w1.0 = "[]" and ?b1.0 = "[]"
        and post = "[Reasoning ''rs_1'' (Some ''gAAAAB'') []]" and ?w2.0 = "[]"
        and ?b2.0 = "[Thinking ''gAAAAB'' ''rs_1'']"
        and item = "OtherItem ''web_search_call'' ''ws_1'' None
                      (JObj [(''status'', JStr ''completed'')])"
        and t = "''web_search_call''" and i = "''ws_1''" and e = None
        and p = "JObj [(''status'', JStr ''completed'')]"]
    by (simp add: formatMessagesForOpenAI_def)
qed

text \<open>
  The claim as the spec words it fails on the empty payload: the item carries an
  encrypted_content, the empty string, and no block comes back, so the \<^verbatim>\<open>Thinking\<close>
  block does not round-trip.
\<close>

theorem thinking_empty_payload_counterexample:
  "formatMessagesForOpenAI JS [\<lparr>role = ASSISTANT, content = [Thinking [] ''rs_1'']\<rparr>] =
   [Reasoning ''rs_1'' (Some []) []]
   \<and>
   formatOpenAIResponse JS [Reasoning ''rs_1'' (Some []) []] = ([], Inr [])
   \<and>
   formatOpenAIResponse JS
     (formatMessagesForOpenAI JS [\<lparr>role = ASSISTANT, content = [Thinking [] ''rs_1'']\<rparr>]) \<noteq>
   ([], Inr [Thinking [] ''rs_1''])"
  by (simp add: run_translators)

section \<open>What an inbound item yields\<close>

text \<open>
  Claim C7, as the code has it.  When the inbound translation returns, its blocks and
  its warnings are those of its items, in order.  An item whose tag is not \<^verbatim>\<open>message\<close>
  yields zero or one block, and a \<^verbatim>\<open>message\<close> item yields one block for each entry with
  a text or a refusal, so it may yield several.  An item that yields no block logs no
  warning, and it is a \<^verbatim>\<open>message\<close> item or an item with one of the four tags of the
  reasoning case; a warning is logged only together with exactly one \<^verbatim>\<open>Text\<close> block.
\<close>

theorem inbound_item_yield:
  assumes "formatOpenAIResponse J items = (w, Inr bs)"
  shows "w = concat (map (\<lambda>it. fst (formatItem J it)) items) \<and>
     bs = concat (map (\<lambda>it. projr (snd (formatItem J it))) items) \<and>
     (\<forall>it \<in> set items. \<exists>wi bi.
        formatItem J it = (wi, Inr bi) \<and>
        (item_type it \<noteq> ''message'' \<longrightarrow> length bi \<le> 1) \<and>
        (bi = [] \<longrightarrow> wi = []) \<and>
        (wi \<noteq> [] \<longrightarrow> (\<exists>t. bi = [Text t])) \<and>
        (bi = [] \<longrightarrow> item_type it \<in> set [''message'', ''file_search_call'',
           ''web_search_call'', ''computer_call'', ''reasoning''])) \<and>
     formatOpenAIResponse J [Message ro [OutputText s, Refusal u]] =
       ([], Inr [Text s, Text (''Refusal: '' @ u)])"
proof -
  note parts = formatOpenAIResponse_items [OF assms]
  have "\<exists>wi bi. formatItem J it = (wi, Inr bi) \<and>
          (item_type it \<noteq> ''message'' \<longrightarrow> length bi \<le> 1) \<and>
          (bi = [] \<longrightarrow> wi = []) \<and>
          (wi \<noteq> [] \<longrightarrow> (\<exists>t. bi = [Text t])) \<and>
          (bi = [] \<longrightarrow> item_type it \<in> set [''message'', ''file_search_call'',
             ''web_search_call'', ''computer_call'', ''reasoning''])" if "it \<in> set items" for it
  proof -
    from parts that obtain wi bi where item: "formatItem J it = (wi, Inr bi)"
      by blast
    from formatItem_yield [OF item] item show ?thesis
      by blast
  qed
  moreover have "formatOpenAIResponse J [Message ro [OutputText s, Refusal u]] =
      ([], Inr [Text s, Text (''Refusal: '' @ u)])"
    by (simp add: formatItem_def)
  ultimately show ?thesis
    using parts by blast
qed

theorem inbound_item_yield_witness:
  "formatOpenAIResponse JS
     [Reasoning ''rs_1'' None [], Message assistant [OutputText ''a'', OutputText ''b''],
      FunctionCallOutput ''call_1'' ''ok''] =
   ([''Unknown response output item type: '' @
       JSON_stringify JS (item_value JS (FunctionCallOutput ''call_1'' ''ok''))],
    Inr [Text ''a'', Text ''b'',
         Text (JSON_stringify JS (item_value JS (FunctionCallOutput ''call_1'' ''ok'')))])
   \<and>
   [''Unknown response output item type: '' @
      JSON_stringify JS (item_value JS (FunctionCallOutput ''call_1'' ''ok''))] =
   concat (map (\<lambda>it. fst (formatItem JS it))
     [Reasoning ''rs_1'' None [], Message assistant [OutputText ''a'', OutputText ''b''],
      FunctionCallOutput ''call_1'' ''ok''])
   \<and>
   [Text ''a'', Text ''b'',
    Text (JSON_stringify JS (item_value JS (FunctionCallOutput ''call_1'' ''ok'')))] =
   concat (map (\<lambda>it. projr (snd (formatItem JS it)))
     [Reasoning ''rs_1'' None [], Message assistant [OutputText ''a'', OutputText ''b''],
      FunctionCallOutput ''call_1'' ''ok''])
   \<and>
   formatItem JS (Reasoning ''rs_1'' None []) = ([], Inr [])
   \<and>
   formatItem JS (Message assistant [OutputText ''a'', OutputText ''b'']) =
   ([], Inr [Text ''a'', Text ''b''])
   \<and>
   formatItem JS (FunctionCallOutput ''call_1'' ''ok'') =
   ([''Unknown response output item type: '' @
       JSON_stringify JS (item_value JS (FunctionCallOutput ''call_1'' ''ok''))],
    Inr [Text (JSON_stringify JS (item_value JS (FunctionCallOutput ''call_1'' ''ok'')))])"
proof -
  have run: "formatOpenAIResponse JS
       [Reasoning ''rs_1'' None [], Message assistant [OutputText ''a'', OutputText ''b''],
        FunctionCallOutput ''call_1'' ''ok''] =
     ([''Unknown response output item type: '' @
         JSON_stringify JS (item_value JS (FunctionCallOutput ''call_1'' ''ok''))],
      Inr [Text ''a'', Text ''b'',
           Text (JSON_stringify JS (item_value JS (FunctionCallOutput ''call_1'' ''ok'')))])"
    by (simp add: formatItem_def)
  have items: "formatItem JS (Reasoning ''rs_1'' None []) = ([], Inr [])"
    "formatItem JS (Message assistant [OutputText ''a'', OutputText ''b'']) =
       ([], Inr [Text ''a'', Text ''b''])"
    "formatItem JS (FunctionCallOutput ''call_1'' ''ok'') =
       ([''Unknown response output item type: '' @
           JSON_stringify JS (item_value JS (FunctionCallOutput ''call_1'' ''ok''))],
        Inr [Text (JSON_stringify JS (item_value JS (FunctionCallOutput ''call_1'' ''ok'')))])"
    by (simp_all add: formatItem_def)
  from inbound_item_yield [OF run] run items show ?thesis
    by blast
qed

text \<open>
  The claim as the spec words it fails on a reasoning item without encrypted_content:
  the item yields no block and nothing is logged.
\<close>

theorem silent_drop_counterexample:
  "snd (formatOpenAIResponse JS [Reasoning ''rs_1'' None []]) = Inr [] \<and>
   fst (formatOpenAIResponse JS [Reasoning ''rs_1'' None []]) = []"
  by (simp add: formatItem_def)

section \<open>The textual fallback\<close>

text \<open>
  Claim C8.  Outbound, a block of a type the translator does not know, among the blocks
  of a message, is translated to exactly one user message whose single \<^verbatim>\<open>input_text\<close>
  entry is \<^verbatim>\<open>JSON.stringify\<close> of the block.  Inbound, an item whose tag is none of
  \<^verbatim>\<open>message\<close>, \<^verbatim>\<open>function_call\<close>, \<^verbatim>\<open>file_search_call\<close>, \<^verbatim>\<open>web_search_call\<close>,
  \<^verbatim>\<open>computer_call\<close> and \<^verbatim>\<open>reasoning\<close> (a known tag without a mapping, or an unknown
  one) is translated to exactly one \<^verbatim>\<open>Text\<close> block whose text is \<^verbatim>\<open>JSON.stringify\<close> of
  the item, with one warning logged; nothing is raised, and the items around it are
  translated as they would be without it.  Where \<^verbatim>\<open>JSON.parse\<close> inverts
  \<^verbatim>\<open>JSON.stringify\<close> on the block or item, parsing the fallback text gives the block or
  item back.
\<close>

theorem fallback_serialisation:
  "formatMessagesForOpenAI J (ms1 @ [\<lparr>role = r, content = bs1 @ [OtherBlock v] @ bs2\<rparr>] @ ms2) =
   formatMessagesForOpenAI J ms1 @ concat (map (formatBlock J r) bs1) @
   [Message user [InputText (JSON_stringify J (block_value J (OtherBlock v)))]] @
   concat (map (formatBlock J r) bs2) @ formatMessagesForOpenAI J ms2
   \<and>
   (JSON_parse J (JSON_stringify J (block_value J (OtherBlock v))) =
      Some (block_value J (OtherBlock v)) \<longrightarrow>
    (\<exists>txt. formatMessagesForOpenAI J [\<lparr>role = r, content = [OtherBlock v]\<rparr>] =
             [Message user [InputText txt]] \<and>
           JSON_parse J txt = Some (block_value J (OtherBlock v))))
   \<and>
   (item_type item \<notin> set [''message'', ''function_call'', ''file_search_call'',
                            ''web_search_call'', ''computer_call'', ''reasoning''] \<longrightarrow>
    formatOpenAIResponse J pre = (w1, Inr b1) \<longrightarrow>
    formatOpenAIResponse J post = (w2, Inr b2) \<longrightarrow>
    formatOpenAIResponse J (pre @ [item] @ post) =
      (w1 @
       [if item_type item \<in> set [''image_generation_call'', ''code_interpreter_call'',
                                   ''local_shell_call'', ''mcp_call'', ''mcp_list_tools'',
                                   ''mcp_approval_request'']
        then ''Unsupported response output item type: '' @ item_type item
        else ''Unknown response output item type: '' @ JSON_stringify J (item_value J item)] @
       w2,
       Inr (b1 @ [Text (JSON_stringify J (item_value J item))] @ b2)))
   \<and>
   (item_type item \<notin> set [''message'', ''function_call'', ''file_search_call'',
                            ''web_search_call'', ''computer_call'', ''reasoning''] \<longrightarrow>
    JSON_parse J (JSON_stringify J (item_value J item)) = Some (item_value J item) \<longrightarrow>
    (\<exists>warning txt. formatOpenAIResponse J [item] = ([warning], Inr [Text txt]) \<and>
                   JSON_parse J txt = Some (item_value J item)))"
proof (intro conjI impI)
  show "formatMessagesForOpenAI J
      (ms1 @ [\<lparr>role = r, content = bs1 @ [OtherBlock v] @ bs2\<rparr>] @ ms2) =
    formatMessagesForOpenAI J ms1 @ concat (map (formatBlock J r) bs1) @
    [Message user [InputText (JSON_stringify J (block_value J (OtherBlock v)))]] @
    concat (map (formatBlock J r) bs2) @ formatMessagesForOpenAI J ms2"
    by (simp add: formatMessagesForOpenAI_around formatMessage_mixed_around)
next
  assume "JSON_parse J (JSON_stringify J (block_value J (OtherBlock v))) =
      Some (block_value J (OtherBlock v))"
  then show "\<exists>txt. formatMessagesForOpenAI J [\<lparr>role = r, content = [OtherBlock v]\<rparr>] =
        [Message user [InputText txt]] \<and>
      JSON_parse J txt = Some (block_value J (OtherBlock v))"
    by (simp add: formatMessagesForOpenAI_single formatMessage_mixed)
next
  assume tag: "item_type item \<notin> set [''message'', ''function_call'', ''file_search_call'',
                                       ''web_search_call'', ''computer_call'', ''reasoning'']"
    and pre: "formatOpenAIResponse J pre = (w1, Inr b1)"
    and post: "formatOpenAIResponse J post = (w2, Inr b2)"
  show "formatOpenAIResponse J (pre @ [item] @ post) =
      (w1 @
       [if item_type item \<in> set [''image_generation_call'', ''code_interpreter_call'',
                                   ''local_shell_call'', ''mcp_call'', ''mcp_list_tools'',
                                   ''mcp_approval_request'']
        then ''Unsupported response output item type: '' @ item_type item
        else ''Unknown response output item type: '' @ JSON_stringify J (item_value J item)] @
       w2,
       Inr (b1 @ [Text (JSON_stringify J (item_value J item))] @ b2))"
    by (rule formatOpenAIResponse_around [OF pre formatItem_fallback [OF tag] post])
next
  assume tag: "item_type item \<notin> set [''message'', ''function_call'', ''file_search_call'',
                                       ''web_search_call'', ''computer_call'', ''reasoning'']"
    and "JSON_parse J (JSON_stringify J (item_value J item)) = Some (item_value J item)"
  then show "\<exists>warning txt. formatOpenAIResponse J [item] = ([warning], Inr [Text txt]) \<and>
      JSON_parse J txt = Some (item_value J item)"
    by (simp only: formatOpenAIResponse_single formatItem_fallback [OF tag]) blast
qed

theorem fallback_serialisation_witness:
  "JSON_parse JS
     (JSON_stringify JS (block_value JS (OtherBlock (JObj [(''type'', JStr ''document'')])))) =
   Some (block_value JS (OtherBlock (JObj [(''type'', JStr ''document'')])))
   \<and>
   (\<exists>txt. formatMessagesForOpenAI JS
            [\<lparr>role = ASSISTANT, content = [OtherBlock (JObj [(''type'', JStr ''document'')])]\<rparr>] =
          [Message user [InputText txt]] \<and>
          JSON_parse JS txt = Some (JObj [(''type'', JStr ''document'')]))
   \<and>
   item_type (OtherItem ''mcp_call'' ''mcp_1'' None (JObj [(''name'', JStr ''fetch'')])) \<notin>
     set [''message'', ''function_call'', ''file_search_call'', ''web_search_call'',
          ''computer_call'', ''reasoning'']
   \<and>
   formatOpenAIResponse JS
     ([Message assistant [OutputText ''a'']] @
      [OtherItem ''mcp_call'' ''mcp_1'' None (JObj [(''name'', JStr ''fetch'')])] @
      [Message assistant [OutputText ''b'']]) =
   ([''Unsupported response output item type: mcp_call''],
    Inr [Text ''a'',
         Text (''{'' @ [CHR 0x22] @ ''type'' @ [CHR 0x22] @ '':'' @ [CHR 0x22] @ ''mcp_call'' @
               [CHR 0x22] @ '','' @ [CHR 0x22] @ ''id'' @ [CHR 0x22] @ '':'' @ [CHR 0x22] @
               ''mcp_1'' @ [CHR 0x22] @ '','' @ [CHR 0x22] @ ''name'' @ [CHR 0x22] @ '':'' @
               [CHR 0x22] @ ''fetch'' @ [CHR 0x22] @ ''}''),
         Text ''b''])
   \<and>
   JSON_parse JS
     (JSON_stringify JS
        (item_value JS (OtherItem ''mcp_call'' ''mcp_1'' None (JObj [(''name'', JStr ''fetch'')])))) =
   Some (item_value JS (OtherItem ''mcp_call'' ''mcp_1'' None (JObj [(''name'', JStr ''fetch'')])))
   \<and>
   (\<exists>warning txt.
      formatOpenAIResponse JS
        [OtherItem ''mcp_call'' ''mcp_1'' None (JObj [(''name'', JStr ''fetch'')])] =
      ([warning], Inr [Text txt]) \<and>
      JSON_parse JS txt =
      Some (JObj [(''type'', JStr ''mcp_call''), (''id'', JStr ''mcp_1''),
                  (''name'', JStr ''fetch'')]))"
proof -
  have block_back: "JSON_parse JS
       (JSON_stringify JS (block_value JS (OtherBlock (JObj [(''type'', JStr ''document'')])))) =
     Some (block_value JS (OtherBlock (JObj [(''type'', JStr ''document'')])))"
    by (simp add: run_JSON)
  have tag: "item_type (OtherItem ''mcp_call'' ''mcp_1'' None (JObj [(''name'', JStr ''fetch'')])) \<notin>
      set [''message'', ''function_call'', ''file_search_call'', ''web_search_call'',
           ''computer_call'', ''reasoning'']"
    by simp
  have item_back: "JSON_parse JS
       (JSON_stringify JS
          (item_value JS
             (OtherItem ''mcp_call'' ''mcp_1'' None (JObj [(''name'', JStr ''fetch'')])))) =
     Some (item_value JS (OtherItem ''mcp_call'' ''mcp_1'' None (JObj [(''name'', JStr ''fetch'')])))"
    by (simp add: run_JSON)
  have pre: "formatOpenAIResponse JS [Message assistant [OutputText ''a'']] = ([], Inr [Text ''a''])"
    by (simp add: formatItem_def)
  have post: "formatOpenAIResponse JS [Message assistant [OutputText ''b'']] = ([], Inr [Text ''b''])"
    by (simp add: formatItem_def)
  have vals: "block_value JS (OtherBlock (JObj [(''type'', JStr ''document'')])) =
      JObj [(''type'', JStr ''document'')]"
    "item_value JS (OtherItem ''mcp_call'' ''mcp_1'' None (JObj [(''name'', JStr ''fetch'')])) =
      JObj [(''type'', JStr ''mcp_call''), (''id'', JStr ''mcp_1''), (''name'', JStr ''fetch'')]"
    "JSON_stringify JS
       (JObj [(''type'', JStr ''mcp_call''), (''id'', JStr ''mcp_1''), (''name'', JStr ''fetch'')]) =
     ''{'' @ [CHR 0x22] @ ''type'' @ [CHR 0x22] @ '':'' @ [CHR 0x22] @ ''mcp_call'' @
     [CHR 0x22] @ '','' @ [CHR 0x22] @ ''id'' @ [CHR 0x22] @ '':'' @ [CHR 0x22] @
     ''mcp_1'' @ [CHR 0x22] @ '','' @ [CHR 0x22] @ ''name'' @ [CHR 0x22] @ '':'' @
     [CHR 0x22] @ ''fetch'' @ [CHR 0x22] @ ''}''"
    by (simp_all add: JS_def quote_def)
  note inst = fallback_serialisation [where J = JS and ?ms1.0 = "[]" and ?ms2.0 = "[]"
      and r = ASSISTANT and ?bs1.0 = "[]" and ?bs2.0 = "[]"
      and v = "JObj [(''type'', JStr ''document'')]"
      and item = "OtherItem ''mcp_call'' ''mcp_1'' None (JObj [(''name'', JStr ''fetch'')])"
      and pre = "[Message assistant [OutputText ''a'']]" and ?w1.0 = "[]"
      and ?b1.0 = "[Text ''a'']" and post = "[Message assistant [OutputText ''b'']]"
      and ?w2.0 = "[]" and ?b2.0 = "[Text ''b'']"]
  have a: "\<exists>txt. formatMessagesForOpenAI JS
            [\<lparr>role = ASSISTANT, content = [OtherBlock (JObj [(''type'', JStr ''document'')])]\<rparr>] =
          [Message user [InputText txt]] \<and>
          JSON_parse JS txt = Some (JObj [(''type'', JStr ''document'')])"
    using inst block_back vals(1) by simp
  have b: "formatOpenAIResponse JS
     ([Message assistant [OutputText ''a'']] @
      [OtherItem ''mcp_call'' ''mcp_1'' None (JObj [(''name'', JStr ''fetch'')])] @
      [Message assistant [OutputText ''b'']]) =
   ([''Unsupported response output item type: mcp_call''],
    Inr [Text ''a'',
         Text (''{'' @ [CHR 0x22] @ ''type'' @ [CHR 0x22] @ '':'' @ [CHR 0x22] @ ''mcp_call'' @
               [CHR 0x22] @ '','' @ [CHR 0x22] @ ''id'' @ [CHR 0x22] @ '':'' @ [CHR 0x22] @
               ''mcp_1'' @ [CHR 0x22] @ '','' @ [CHR 0x22] @ ''name'' @ [CHR 0x22] @ '':'' @
               [CHR 0x22] @ ''fetch'' @ [CHR 0x22] @ ''}''),
         Text ''b''])"
    using inst tag pre post vals(2,3) by simp
  have c: "\<exists>warning txt.
      formatOpenAIResponse JS
        [OtherItem ''mcp_call'' ''mcp_1'' None (JObj [(''name'', JStr ''fetch'')])] =
      ([warning], Inr [Text txt]) \<and>
      JSON_parse JS txt =
      Some (JObj [(''type'', JStr ''mcp_call''), (''id'', JStr ''mcp_1''),
                  (''name'', JStr ''fetch'')])"
    using inst tag item_back vals(2) by simp
  from block_back tag item_back a b c show ?thesis
    by blast
qed

section \<open>UserAction blocks beside other blocks\<close>

text \<open>
  Claim C10.  In a message whose blocks are not all \<^verbatim>\<open>UserAction\<close> blocks, a
  \<^verbatim>\<open>UserAction\<close> block is neither flattened nor dropped: it takes the default case of
  the switch and is translated, at its place, to one user message whose single
  \<^verbatim>\<open>input_text\<close> entry is \<^verbatim>\<open>JSON.stringify\<close> of the whole block, children included.
\<close>

theorem user_action_beside_other_blocks:
  assumes "\<not> list_all isUserActionContentBlock (bs1 @ [UserAction cs] @ bs2)"
  shows "formatMessagesForOpenAI J
     (ms1 @ [\<lparr>role = r, content = bs1 @ [UserAction cs] @ bs2\<rparr>] @ ms2) =
   formatMessagesForOpenAI J ms1 @ concat (map (formatBlock J r) bs1) @
   [Message user [InputText (JSON_stringify J (block_value J (UserAction cs)))]] @
   concat (map (formatBlock J r) bs2) @ formatMessagesForOpenAI J ms2"
proof -
  have "formatMessage J \<lparr>role = r, content = bs1 @ [UserAction cs] @ bs2\<rparr> =
      concat (map (formatBlock J r) (bs1 @ [UserAction cs] @ bs2))"
    using assms by (rule formatMessage_mixed)
  then show ?thesis
    by (simp add: formatMessagesForOpenAI_around)
qed

theorem user_action_beside_other_blocks_witness:
  "\<not> list_all isUserActionContentBlock
       ([Text ''I clicked for you''] @
        [UserAction [ToolUse ''t1'' ''computer_click_mouse'' (JObj [(''x'', JNum 1)]),
                     Image ''image/png'' ''AAA='']] @ [])
   \<and>
   formatMessagesForOpenAI JS
     [\<lparr>role = USER,
       content =
         [Text ''I clicked for you'',
          UserAction [ToolUse ''t1'' ''computer_click_mouse'' (JObj [(''x'', JNum 1)]),
                      Image ''image/png'' ''AAA='']]\<rparr>] =
   [Message user [InputText ''I clicked for you''],
    Message user
      [InputText
         (JSON_stringify JS
            (JObj [(''type'', JStr ''user_action''),
                   (''content'',
                    JArr [JObj [(''type'', JStr ''tool_use''), (''id'', JStr ''t1''),
                                (''name'', JStr ''computer_click_mouse''),
                                (''input'', JObj [(''x'', JNum 1)])],
                          JObj [(''type'', JStr ''image''),
                                (''source'', JObj [(''media_type'', JStr ''image/png''),
                                                   (''data'', JStr ''AAA='')])]])]))]]"
proof -
  have mixed: "\<not> list_all isUserActionContentBlock
       ([Text ''I clicked for you''] @
        [UserAction [ToolUse ''t1'' ''computer_click_mouse'' (JObj [(''x'', JNum 1)]),
                     Image ''image/png'' ''AAA='']] @ [])"
    by simp
  have "block_value JS
      (UserAction [ToolUse ''t1'' ''computer_click_mouse'' (JObj [(''x'', JNum 1)]),
                   Image ''image/png'' ''AAA='']) =
    JObj [(''type'', JStr ''user_action''),
          (''content'',
           JArr [JObj [(''type'', JStr ''tool_use''), (''id'', JStr ''t1''),
                       (''name'', JStr ''computer_click_mouse''),
                       (''input'', JObj [(''x'', JNum 1)])],
                 JObj [(''type'', JStr ''image''),
                       (''source'', JObj [(''media_type'', JStr ''image/png''),
                                          (''data'', JStr ''AAA='')])]])]"
    by (simp add: JS_def)
  then show ?thesis
    using mixed user_action_beside_other_blocks [OF mixed, where J = JS and ?ms1.0 = "[]"
        and ?ms2.0 = "[]" and r = USER]
    by (simp add: formatMessagesForOpenAI_def)
qed

end
